theory Spec2Isabelle
  imports Main "HOL-Library.AList" "HOL-Library.List_Lexorder" "HOL-Library.Char_ord"
begin

section \<open>Python values and the built-ins the adapter calls\<close>

text \<open>
  The adapter (\<^verbatim>\<open>app.py\<close>) receives dynamically typed values: the fields of a decoded JSON
  body or of a form. A Python \<^verbatim>\<open>str\<close> is modelled as a \<^typ>\<open>string\<close> whose characters are
  the code points U+0000 to U+00FF (Latin-1); code points above U+00FF are outside the
  model. Bytes are characters too, so \<^verbatim>\<open>bytes\<close> is also a \<^typ>\<open>string\<close>.

  A finite float \<open>Finite neg m e\<close> is the sign bit, the mantissa and the binary exponent of
  the IEEE double: its value is \<open>(-1)^neg * m * 2^e\<close>. A dict is the list of its items,
  in insertion order. Under a limit on digits the decoder yields no integer beyond it, so
  \<^verbatim>\<open>str()\<close> of an integer never raises. \<open>PUpload name\<close> is a file part of a multipart form
  (Starlette's \<^verbatim>\<open>UploadFile\<close>).
\<close>

type_synonym bytes = string

datatype pyexc = TypeError | ValueError | OverflowError | OtherException string

datatype pyfloat = Finite bool nat int | Inf bool | NaN

datatype pyval =
    PNone
  | PBool bool
  | PInt int
  | PFloat pyfloat
  | PStr string
  | PList "pyval list"
  | PDict "(string \<times> pyval) list"
  | PUpload string

text \<open>
  What the interpreter prints for a value is computed below for \<^verbatim>\<open>None\<close>, booleans,
  integers, strings and (up to the digits) floats. The remaining texts are parameters of the
  model: \<open>float_digits m e\<close> is the shortest decimal digit string that reads back as the
  double \<open>m * 2^e\<close> together with the position of its decimal point (CPython's
  \<^verbatim>\<open>_Py_dg_dtoa\<close> in mode 0), and \<open>object_repr v\<close> is the text of a list, a dict or an
  upload object. \<open>max_str_digits\<close> is the interpreter's limit on the length of a digit
  string that \<^verbatim>\<open>int()\<close> reads (\<^verbatim>\<open>sys.get_int_max_str_digits()\<close>: 4300 unless configured,
  0 for no limit). No theorem assumes anything about the three.
\<close>

record interp =
  float_digits :: "nat \<Rightarrow> int \<Rightarrow> string \<times> int"
  object_repr :: "pyval \<Rightarrow> string"
  max_str_digits :: nat

subsection \<open>Character classes\<close>

text \<open>\<^verbatim>\<open>str.isspace\<close> on U+0000..U+00FF: what \<^verbatim>\<open>str.strip()\<close> removes.\<close>

definition py_isspace :: "char \<Rightarrow> bool" where
  "py_isspace c \<longleftrightarrow>
     c \<in> set [CHR 0x09, CHR 0x0A, CHR 0x0B, CHR 0x0C, CHR 0x0D, CHR 0x1C, CHR 0x1D, CHR 0x1E,
              CHR 0x1F, CHR 0x20, CHR 0x85, CHR 0xA0]"

text \<open>
  The whitespace that \<^verbatim>\<open>int()\<close> skips around a number: the same but for the separators
  U+001C to U+001F, which CPython's parser does not take for whitespace.
\<close>

definition int_isspace :: "char \<Rightarrow> bool" where
  "int_isspace c \<longleftrightarrow>
     c \<in> set [CHR 0x09, CHR 0x0A, CHR 0x0B, CHR 0x0C, CHR 0x0D, CHR 0x20, CHR 0x85, CHR 0xA0]"

text \<open>The decimal digits (category Nd) of U+0000..U+00FF, with their values.\<close>

definition decimal_value :: "char \<Rightarrow> nat option" where
  "decimal_value =
     map_of [(CHR ''0'', 0), (CHR ''1'', 1), (CHR ''2'', 2), (CHR ''3'', 3), (CHR ''4'', 4),
             (CHR ''5'', 5), (CHR ''6'', 6), (CHR ''7'', 7), (CHR ''8'', 8), (CHR ''9'', 9)]"

text \<open>
  \<^verbatim>\<open>str.isdigit\<close> accepts the decimal digits and the characters of numeric type Digit:
  in U+0000..U+00FF these are the superscripts two, three (U+00B2, U+00B3) and one (U+00B9),
  which \<^verbatim>\<open>int()\<close> does not read.
\<close>

definition char_isdigit :: "char \<Rightarrow> bool" where
  "char_isdigit c \<longleftrightarrow> decimal_value c \<noteq> None \<or> c \<in> set [CHR 0xB2, CHR 0xB3, CHR 0xB9]"

definition str_isdigit :: "string \<Rightarrow> bool" where
  "str_isdigit s \<longleftrightarrow> s \<noteq> [] \<and> list_all char_isdigit s"

definition strip_with :: "(char \<Rightarrow> bool) \<Rightarrow> string \<Rightarrow> string" where
  "strip_with space s = rev (dropWhile space (rev (dropWhile space s)))"

definition str_strip :: "string \<Rightarrow> string" where
  "str_strip s = strip_with py_isspace s"

subsection \<open>\<^verbatim>\<open>int(x)\<close>\<close>

text \<open>
  The digits after the first one, where single underscores may separate digits.
  \<open>digits_value acc cs\<close> is the value read so far extended by \<open>cs\<close>.
\<close>

fun digits_value :: "nat \<Rightarrow> string \<Rightarrow> nat option" where
  "digits_value acc [] = Some acc"
| "digits_value acc (c # cs) =
     (if c = CHR ''_'' then
        (case cs of
           [] \<Rightarrow> None
         | d # ds \<Rightarrow>
             (case decimal_value d of
                None \<Rightarrow> None
              | Some v \<Rightarrow> digits_value (10 * acc + v) ds))
      else
        (case decimal_value c of
           None \<Rightarrow> None
         | Some v \<Rightarrow> digits_value (10 * acc + v) cs))"

text \<open>
  The limit on digits applies to strings of more than 640 digits (no lower limit can be
  set), when it is not 0.
\<close>

definition over_limit :: "interp \<Rightarrow> nat \<Rightarrow> bool" where
  "over_limit rt k \<longleftrightarrow> 640 < k \<and> 0 < max_str_digits rt \<and> max_str_digits rt < k"

text \<open>
  \<^verbatim>\<open>int(s)\<close> for a string, base 10: surrounding whitespace is dropped, one sign is allowed,
  then at least one digit, and the digits (underscores not counted) are within the limit.
  Anything else raises \<^verbatim>\<open>ValueError\<close>.
\<close>

definition str_to_int :: "interp \<Rightarrow> string \<Rightarrow> pyexc + int" where
  "str_to_int rt s =
     (let t = strip_with int_isspace s;
          neg = (t \<noteq> [] \<and> hd t = CHR ''-'');
          body = (if t \<noteq> [] \<and> (hd t = CHR ''-'' \<or> hd t = CHR ''+'') then tl t else t)
      in case body of
           [] \<Rightarrow> Inl ValueError
         | d # ds \<Rightarrow>
             (case decimal_value d of
                None \<Rightarrow> Inl ValueError
              | Some v \<Rightarrow>
                  (case digits_value v ds of
                     None \<Rightarrow> Inl ValueError
                   | Some n \<Rightarrow>
                       if over_limit rt (length (filter (\<lambda>c. c \<noteq> CHR ''_'') body))
                       then Inl ValueError
                       else Inr (if neg then - int n else int n))))"

text \<open>
  \<^verbatim>\<open>int(x)\<close>: \<^verbatim>\<open>None\<close>, lists, dicts and uploads raise \<^verbatim>\<open>TypeError\<close>; a float is truncated
  towards zero, and \<^verbatim>\<open>nan\<close> and the infinities raise.
\<close>

fun py_int :: "interp \<Rightarrow> pyval \<Rightarrow> pyexc + int" where
  "py_int rt PNone = Inl TypeError"
| "py_int rt (PBool b) = Inr (if b then 1 else 0)"
| "py_int rt (PInt n) = Inr n"
| "py_int rt (PFloat (Finite neg m e)) =
     (let t = (if 0 \<le> e then int m * 2 ^ nat e else int m div 2 ^ nat (- e))
      in Inr (if neg then - t else t))"
| "py_int rt (PFloat (Inf neg)) = Inl OverflowError"
| "py_int rt (PFloat NaN) = Inl ValueError"
| "py_int rt (PStr s) = str_to_int rt s"
| "py_int rt (PList xs) = Inl TypeError"
| "py_int rt (PDict kvs) = Inl TypeError"
| "py_int rt (PUpload name) = Inl TypeError"

subsection \<open>Truth values, \<^verbatim>\<open>x or y\<close>, \<^verbatim>\<open>dict.get\<close>\<close>

fun truthy :: "pyval \<Rightarrow> bool" where
  "truthy PNone = False"
| "truthy (PBool b) = b"
| "truthy (PInt n) = (n \<noteq> 0)"
| "truthy (PFloat (Finite neg m e)) = (m \<noteq> 0)"
| "truthy (PFloat (Inf neg)) = True"
| "truthy (PFloat NaN) = True"
| "truthy (PStr s) = (s \<noteq> [])"
| "truthy (PList xs) = (xs \<noteq> [])"
| "truthy (PDict kvs) = (kvs \<noteq> [])"
| "truthy (PUpload name) = True"

definition py_or :: "pyval \<Rightarrow> pyval \<Rightarrow> pyval" where
  "py_or x y = (if truthy x then x else y)"

text \<open>\<^verbatim>\<open>d.get(k)\<close> and \<^verbatim>\<open>d.get(k, None)\<close>: the value, or \<^verbatim>\<open>None\<close> for a missing key.\<close>

definition dict_get :: "(string \<times> pyval) list \<Rightarrow> string \<Rightarrow> pyval" where
  "dict_get kvs k = (case map_of kvs k of None \<Rightarrow> PNone | Some v \<Rightarrow> v)"

text \<open>
  A form is the list of its fields in the order of the body (Starlette's \<^verbatim>\<open>FormData\<close>,
  a multi-dict): \<^verbatim>\<open>form.get(k)\<close> is the last value sent for \<open>k\<close>.
\<close>

definition form_get :: "(string \<times> pyval) list \<Rightarrow> string \<Rightarrow> pyval" where
  "form_get items k = dict_get (rev items) k"

subsection \<open>\<^verbatim>\<open>str(x)\<close>\<close>

definition digit_char :: "nat \<Rightarrow> char" where
  "digit_char d =
     (if d = 0 then CHR ''0'' else if d = 1 then CHR ''1'' else if d = 2 then CHR ''2''
      else if d = 3 then CHR ''3'' else if d = 4 then CHR ''4'' else if d = 5 then CHR ''5''
      else if d = 6 then CHR ''6'' else if d = 7 then CHR ''7'' else if d = 8 then CHR ''8''
      else CHR ''9'')"

fun nat_digits :: "nat \<Rightarrow> string" where
  "nat_digits n =
     (if n < 10 then [digit_char n] else nat_digits (n div 10) @ [digit_char (n mod 10)])"

definition int_str :: "int \<Rightarrow> string" where
  "int_str n = (if n < 0 then CHR ''-'' # nat_digits (nat (- n)) else nat_digits (nat n))"

text \<open>
  The text of a finite float from its shortest digits \<open>ds\<close> and the position \<open>decpt\<close> of
  the decimal point (CPython's \<^verbatim>\<open>format_float_short\<close> for \<^verbatim>\<open>repr\<close>): exponent notation
  when \<open>decpt \<le> -4\<close> or \<open>decpt > 16\<close>, and otherwise fixed notation, with \<open>.0\<close> added to
  a whole number.
\<close>

definition exponent_str :: "int \<Rightarrow> string" where
  "exponent_str x =
     (let d = nat_digits (nat \<bar>x\<bar>)
      in (if x < 0 then CHR ''-'' else CHR ''+'') # (if length d < 2 then CHR ''0'' # d else d))"

definition format_float_short :: "string \<times> int \<Rightarrow> string" where
  "format_float_short = (\<lambda>(ds, decpt).
     if decpt \<le> - 4 \<or> 16 < decpt then
       take 1 ds @ (if 1 < length ds then CHR ''.'' # drop 1 ds else []) @
       CHR ''e'' # exponent_str (decpt - 1)
     else if decpt \<le> 0 then
       ''0.'' @ replicate (nat (- decpt)) (CHR ''0'') @ ds
     else if nat decpt < length ds then
       take (nat decpt) ds @ CHR ''.'' # drop (nat decpt) ds
     else
       ds @ replicate (nat decpt - length ds) (CHR ''0'') @ ''.0'')"

fun float_str :: "interp \<Rightarrow> pyfloat \<Rightarrow> string" where
  "float_str rt (Finite neg m e) =
     (if neg then ''-'' else []) @ format_float_short (float_digits rt m e)"
| "float_str rt (Inf neg) = (if neg then ''-inf'' else ''inf'')"
| "float_str rt NaN = ''nan''"

fun py_str :: "interp \<Rightarrow> pyval \<Rightarrow> string" where
  "py_str rt PNone = ''None''"
| "py_str rt (PBool b) = (if b then ''True'' else ''False'')"
| "py_str rt (PInt n) = int_str n"
| "py_str rt (PFloat f) = float_str rt f"
| "py_str rt (PStr s) = s"
| "py_str rt (PList xs) = object_repr rt (PList xs)"
| "py_str rt (PDict kvs) = object_repr rt (PDict kvs)"
| "py_str rt (PUpload name) = object_repr rt (PUpload name)"

subsection \<open>\<^verbatim>\<open>str.lower\<close>, \<^verbatim>\<open>in\<close>, \<^verbatim>\<open>str.encode\<close>, \<^verbatim>\<open>base64.b64encode\<close>\<close>

text \<open>
  Lower case on U+0000..U+00FF: the letters A to Z, and the capital letters U+00C0 to
  U+00DE but for the multiplication sign U+00D7, move up by 32.
\<close>

definition char_lower :: "char \<Rightarrow> char" where
  "char_lower c =
     (let n = (of_char c :: nat)
      in if (65 \<le> n \<and> n \<le> 90) \<or> (192 \<le> n \<and> n \<le> 222 \<and> n \<noteq> 215) then char_of (n + 32)
         else c)"

definition str_lower :: "string \<Rightarrow> string" where
  "str_lower s = map char_lower s"

text \<open>\<open>str_contains sub s\<close> is \<^verbatim>\<open>sub in s\<close>.\<close>

fun str_contains :: "string \<Rightarrow> string \<Rightarrow> bool" where
  "str_contains sub [] = (sub = [])"
| "str_contains sub (c # cs) = (take (length sub) (c # cs) = sub \<or> str_contains sub cs)"

text \<open>UTF-8 of a code point below U+0100: one byte below U+0080, two bytes from there on.\<close>

definition utf8_char :: "char \<Rightarrow> bytes" where
  "utf8_char c =
     (let n = (of_char c :: nat)
      in if n < 128 then [c] else [char_of (192 + n div 64), char_of (128 + n mod 64)])"

definition utf8_encode :: "string \<Rightarrow> bytes" where
  "utf8_encode s = concat (map utf8_char s)"

definition b64_alphabet :: string where
  "b64_alphabet = ''ABCDEFGHIJKLMNOPQRSTUVWXYZabcdefghijklmnopqrstuvwxyz0123456789+/''"

definition b64_char :: "nat \<Rightarrow> char" where
  "b64_char n = b64_alphabet ! n"

text \<open>
  Standard base64: three bytes give four characters, and a last group of one or two
  bytes is padded with \<open>=\<close>. The result is ASCII (lemma \<open>b64encode_ascii\<close> below), so the
  \<^verbatim>\<open>.decode("ascii")\<close> that follows it in the source never raises and is the identity.
\<close>

fun b64encode :: "bytes \<Rightarrow> string" where
  "b64encode [] = []"
| "b64encode [a] =
     (let x = (of_char a :: nat)
      in [b64_char (x div 4), b64_char ((x mod 4) * 16), CHR ''='', CHR ''=''])"
| "b64encode [a, b] =
     (let x = (of_char a :: nat); y = (of_char b :: nat)
      in [b64_char (x div 4), b64_char ((x mod 4) * 16 + y div 16), b64_char ((y mod 16) * 4),
          CHR ''=''])"
| "b64encode (a # b # c # rest) =
     (let x = (of_char a :: nat); y = (of_char b :: nat); z = (of_char c :: nat)
      in [b64_char (x div 4), b64_char ((x mod 4) * 16 + y div 16),
          b64_char ((y mod 16) * 4 + z div 64), b64_char (z mod 64)] @ b64encode rest)"

section \<open>Configuration, requests and results\<close>

text \<open>
  The module-level configuration of app.py (lines 21 to 48), as resolved at start-up.
  \<^verbatim>\<open>TOKEN_TOPIC_MAP\<close> is the list of the items of the dict, typed as the source annotates it
  (\<^verbatim>\<open>Dict[str, str]\<close>).
\<close>

record config =
  ntfy_server :: string
  ntfy_username :: string
  ntfy_password :: string
  default_topic :: string
  default_tags :: string
  title_prefix :: string
  token_topic_map :: "(string \<times> string) list"

text \<open>
  One call of \<^verbatim>\<open>requests.post(url, data=..., headers=..., timeout=10)\<close>. The headers are the
  items of the dict in insertion order.
\<close>

record outbound =
  url :: string
  data :: bytes
  headers :: "(string \<times> string) list"
  timeout :: nat

text \<open>
  What \<^verbatim>\<open>requests.post\<close> does is a parameter of the model, a function from the call to its
  outcome: a response with its status code and text, or a \<^verbatim>\<open>requests.RequestException\<close>
  with its text (Requests documents that every exception it raises itself is one).
\<close>

datatype post_outcome = Response int string | RequestException string

text \<open>
  How a handler fails: by a \<^verbatim>\<open>HTTPException\<close> with its status code and detail, or by any
  other exception, which the framework turns into a 500 response.
\<close>

datatype failure = HTTPException int string | Unhandled pyexc

text \<open>
  The inbound request as the handler reads it: the \<open>token\<close> query parameter and the
  \<open>content-type\<close> header when present, and what \<^verbatim>\<open>await request.json()\<close> and
  \<^verbatim>\<open>await request.form()\<close> return or raise on the body.
\<close>

record request =
  query_token :: "string option"
  content_type :: "string option"
  json_body :: "failure + pyval"
  form_body :: "failure + (string \<times> pyval) list"

text \<open>The content of the \<^verbatim>\<open>JSONResponse\<close> (status 200) that the handler returns.\<close>

record response =
  resp_id :: int
  resp_appid :: int
  resp_title :: string
  resp_message :: string
  resp_priority :: int

section \<open>The priority mapper\<close>

text \<open>
  \<^verbatim>\<open>gotify_priority_to_ntfy\<close> (app.py, lines 53 to 71): \<^verbatim>\<open>except Exception\<close> catches
  whatever \<^verbatim>\<open>int(p)\<close> raises.
\<close>

definition gotify_priority_to_ntfy :: "interp \<Rightarrow> pyval \<Rightarrow> string" where
  "gotify_priority_to_ntfy rt p =
     (case py_int rt p of
        Inl e \<Rightarrow> ''3''
      | Inr p_int \<Rightarrow>
          if p_int \<le> 0 then ''1''
          else if p_int \<le> 2 then ''2''
          else if p_int \<le> 4 then ''3''
          else if p_int \<le> 7 then ''4''
          else ''5'')"

section \<open>The publisher\<close>

text \<open>
  \<^verbatim>\<open>d.update(other)\<close>: each item of \<open>other\<close> replaces the value of its key or is added
  last.
\<close>

definition dict_update :: "('k \<times> 'v) list \<Rightarrow> ('k \<times> 'v) list \<Rightarrow> ('k \<times> 'v) list" where
  "dict_update d other = foldl (\<lambda>acc (k, v). AList.update k v acc) d other"

text \<open>\<^verbatim>\<open>ntfy_auth_header\<close> (lines 74 to 79).\<close>

definition ntfy_auth_header :: "config \<Rightarrow> (string \<times> string) list" where
  "ntfy_auth_header cfg =
     (if ntfy_username cfg = [] then []
      else
        let token = b64encode (utf8_encode (ntfy_username cfg @ '':'' @ ntfy_password cfg))
        in [(''Authorization'', ''Basic '' @ token)])"

text \<open>
  \<^verbatim>\<open>publish_to_ntfy\<close> (lines 82 to 99) in two parts. \<open>ntfy_request\<close> is the call it builds
  (lines 83 to 94): the URL, the headers and the encoded body.
\<close>

definition ntfy_request ::
  "config \<Rightarrow> string \<Rightarrow> string \<Rightarrow> string \<Rightarrow> string \<Rightarrow> string \<Rightarrow> outbound" where
  "ntfy_request cfg topic title message priority tags =
     (let hdrs = [(''Priority'', priority), (''Tags'', tags)];
          hdrs = (if title \<noteq> [] then AList.update ''Title'' title hdrs else hdrs);
          hdrs = dict_update hdrs (ntfy_auth_header cfg)
      in \<lparr>url = ntfy_server cfg @ ''/'' @ topic, data = utf8_encode message, headers = hdrs,
          timeout = 10\<rparr>)"

text \<open>
  \<open>publish_to_ntfy\<close> makes the call once and classifies its outcome (lines 93 to 99). It
  returns its result together with the calls it made.
\<close>

definition publish_to_ntfy ::
  "config \<Rightarrow> (outbound \<Rightarrow> post_outcome) \<Rightarrow> string \<Rightarrow> string \<Rightarrow> string \<Rightarrow> string \<Rightarrow> string \<Rightarrow>
   (failure + unit) \<times> outbound list" where
  "publish_to_ntfy cfg post topic title message priority tags =
     (let call = ntfy_request cfg topic title message priority tags
      in (case post call of
            RequestException e \<Rightarrow> Inl (HTTPException 502 (''Failed to reach ntfy: '' @ e))
          | Response status_code text \<Rightarrow>
              if 400 \<le> status_code then
                Inl (HTTPException 502
                  (''ntfy returned '' @ int_str status_code @ '': '' @ take 200 text))
              else Inr (),
          [call]))"

section \<open>The endpoint\<close>

text \<open>
  \<^verbatim>\<open>gotify_message\<close> (lines 109 to 181) in two parts. \<open>read_body\<close> is the reading of the
  body (lines 126 to 149): it gives the title, the message, the raw priority and the extras,
  or fails as \<^verbatim>\<open>request.json()\<close> or \<^verbatim>\<open>request.form()\<close> fails, or with 400 on a JSON
  body that is not an object.
\<close>

definition read_body ::
  "interp \<Rightarrow> request \<Rightarrow>
   failure + (string \<times> string \<times> pyval \<times> (string \<times> pyval) list option)" where
  "read_body rt request =
     (let ctype = str_lower (case content_type request of None \<Rightarrow> [] | Some v \<Rightarrow> v)
      in if str_contains ''application/json'' ctype then
           (case json_body request of
              Inl err \<Rightarrow> Inl err
            | Inr payload \<Rightarrow>
                (case payload of
                   PDict kvs \<Rightarrow>
                     let title = py_str rt (py_or (dict_get kvs ''title'') (PStr []));
                         message = py_str rt (py_or (dict_get kvs ''message'') (PStr []));
                         priority_val = dict_get kvs ''priority'';
                         extras_val = dict_get kvs ''extras'';
                         extras = (case extras_val of PDict e \<Rightarrow> Some e | _ \<Rightarrow> None)
                     in Inr (title, message, priority_val, extras)
                 | _ \<Rightarrow> Inl (HTTPException 400 ''Invalid JSON payload'')))
         else
           (case form_body request of
              Inl err \<Rightarrow> Inl err
            | Inr form \<Rightarrow>
                let title = py_str rt (py_or (form_get form ''title'') (PStr []));
                    message = py_str rt (py_or (form_get form ''message'') (PStr []));
                    priority_val = form_get form ''priority''
                in Inr (title, message, priority_val, None)))"

text \<open>
  The handler returns the response or the failure, together with the outbound calls made.
  The last step (line 179) calls \<^verbatim>\<open>int()\<close> again, outside any \<^verbatim>\<open>try\<close>.
\<close>

definition gotify_message ::
  "interp \<Rightarrow> config \<Rightarrow> (outbound \<Rightarrow> post_outcome) \<Rightarrow> request \<Rightarrow>
   (failure + response) \<times> outbound list" where
  "gotify_message rt cfg post request =
     (let token = (case query_token request of None \<Rightarrow> [] | Some t \<Rightarrow> t);
          topic = (case map_of (token_topic_map cfg) token of
                     None \<Rightarrow> default_topic cfg
                   | Some t \<Rightarrow> t)
      in case read_body rt request of
           Inl err \<Rightarrow> (Inl err, [])
         | Inr (title, message, priority_val, extras) \<Rightarrow>
             if message = [] \<and> title = [] then
               (Inl (HTTPException 400 ''Missing title/message''), [])
             else
               let ntfy_priority = gotify_priority_to_ntfy rt priority_val;
                   tags = default_tags cfg;
                   tags = (case extras of
                             None \<Rightarrow> tags
                           | Some e \<Rightarrow> if e \<noteq> [] then tags @ '',extras'' else tags);
                   full_title = (if title \<noteq> [] then str_strip (title_prefix cfg @ title)
                                 else str_strip (title_prefix cfg))
               in case publish_to_ntfy cfg post topic full_title
                         (if message \<noteq> [] then message else title) ntfy_priority tags of
                    (Inl err, calls) \<Rightarrow> (Inl err, calls)
                  | (Inr u, calls) \<Rightarrow>
                      (if str_isdigit (py_str rt priority_val) then
                         (case py_int rt priority_val of
                            Inl e \<Rightarrow> Inl (Unhandled e)
                          | Inr n \<Rightarrow>
                              Inr \<lparr>resp_id = 0, resp_appid = 0, resp_title = title,
                                   resp_message = message, resp_priority = n\<rparr>)
                       else
                         Inr \<lparr>resp_id = 0, resp_appid = 0, resp_title = title,
                              resp_message = message, resp_priority = 0\<rparr>,
                       calls))"

section \<open>Example inputs\<close>

text \<open>
  The inputs at which the theorems below are instantiated: an interpreter that prints every
  float as \<open>8.5\<close> and every object as \<open>[]\<close>, with the default limit on digits; a
  configuration without credentials or prefix that maps the token \<open>tok\<close> to the topic
  \<open>alerts\<close>; a destination that answers every call with 200; and requests with a JSON
  body or a form.
\<close>

abbreviation example_interp :: interp where
  "example_interp \<equiv>
     \<lparr>float_digits = (\<lambda>m e. (''85'', 1)), object_repr = (\<lambda>v. ''[]''),
      max_str_digits = 4300\<rparr>"

abbreviation example_config :: config where
  "example_config \<equiv>
     \<lparr>ntfy_server = ''https://ntfy.example.com'', ntfy_username = [], ntfy_password = [],
      default_topic = ''info'', default_tags = ''gotify,adapter'', title_prefix = [],
      token_topic_map = [(''tok'', ''alerts'')]\<rparr>"

abbreviation post_ok :: "outbound \<Rightarrow> post_outcome" where
  "post_ok \<equiv> (\<lambda>c. Response 200 ''ok'')"

abbreviation json_request :: "string option \<Rightarrow> (string \<times> pyval) list \<Rightarrow> request" where
  "json_request token items \<equiv>
     \<lparr>query_token = token, content_type = Some ''application/json'',
      json_body = Inr (PDict items), form_body = Inr []\<rparr>"

abbreviation form_request :: "string option \<Rightarrow> (string \<times> pyval) list \<Rightarrow> request" where
  "form_request token items \<equiv>
     \<lparr>query_token = token, content_type = Some ''application/x-www-form-urlencoded'',
      json_body = Inl (Unhandled ValueError), form_body = Inr items\<rparr>"

text \<open>The request of the specification's example: title \<open>T\<close>, message \<open>M\<close>, priority 8.\<close>

abbreviation example_request :: request where
  "example_request \<equiv>
     json_request (Some ''tok'')
       [(''title'', PStr ''T''), (''message'', PStr ''M''), (''priority'', PInt 8)]"

section \<open>Properties of the priority mapper\<close>

text \<open>
  Claim C1. For every input value, \<^verbatim>\<open>gotify_priority_to_ntfy\<close> returns one of the five
  strings "1" to "5": "3" when \<^verbatim>\<open>int()\<close> raises on the value, and otherwise, for the integer
  \<open>p\<close> it yields, "1" when \<open>p \<le> 0\<close>, "2" when \<open>1 \<le> p \<le> 2\<close>, "3" when \<open>3 \<le> p \<le> 4\<close>,
  "4" when \<open>5 \<le> p \<le> 7\<close> and "5" when \<open>8 \<le> p\<close>.
\<close>

theorem gotify_priority_to_ntfy_bands:
  "gotify_priority_to_ntfy rt raw \<in> {''1'', ''2'', ''3'', ''4'', ''5''} \<and>
   (case py_int rt raw of
      Inl e \<Rightarrow> gotify_priority_to_ntfy rt raw = ''3''
    | Inr p \<Rightarrow>
        (p \<le> 0 \<longrightarrow> gotify_priority_to_ntfy rt raw = ''1'') \<and>
        (1 \<le> p \<and> p \<le> 2 \<longrightarrow> gotify_priority_to_ntfy rt raw = ''2'') \<and>
        (3 \<le> p \<and> p \<le> 4 \<longrightarrow> gotify_priority_to_ntfy rt raw = ''3'') \<and>
        (5 \<le> p \<and> p \<le> 7 \<longrightarrow> gotify_priority_to_ntfy rt raw = ''4'') \<and>
        (8 \<le> p \<longrightarrow> gotify_priority_to_ntfy rt raw = ''5''))"
proof (cases "py_int rt raw")
  case (Inl e)
  then show ?thesis by (simp add: gotify_priority_to_ntfy_def)
next
  case (Inr p)
  then show ?thesis by (simp add: gotify_priority_to_ntfy_def)
qed

theorem gotify_priority_to_ntfy_bands_witness:
  "py_int example_interp (PStr '' +0_6 '') = Inr 6 \<and>
   gotify_priority_to_ntfy example_interp (PStr '' +0_6 '') = ''4'' \<and>
   py_int example_interp (PStr ''high'') = Inl ValueError \<and>
   gotify_priority_to_ntfy example_interp (PStr ''high'') = ''3'' \<and>
   py_int example_interp PNone = Inl TypeError \<and>
   gotify_priority_to_ntfy example_interp PNone = ''3''"
proof -
  have a: "py_int example_interp (PStr '' +0_6 '') = Inr 6"
    by (simp add: str_to_int_def strip_with_def int_isspace_def decimal_value_def
        over_limit_def)
  have b: "py_int example_interp (PStr ''high'') = Inl ValueError"
    by (simp add: str_to_int_def strip_with_def int_isspace_def decimal_value_def
        over_limit_def)
  from a gotify_priority_to_ntfy_bands [of example_interp "PStr '' +0_6 ''"]
  have c: "gotify_priority_to_ntfy example_interp (PStr '' +0_6 '') = ''4''" by simp
  from b gotify_priority_to_ntfy_bands [of example_interp "PStr ''high''"]
  have d: "gotify_priority_to_ntfy example_interp (PStr ''high'') = ''3''" by simp
  from gotify_priority_to_ntfy_bands [of example_interp PNone]
  have e: "gotify_priority_to_ntfy example_interp PNone = ''3''" by simp
  from a b c d e show ?thesis by simp
qed

text \<open>
  Claim C6. On integers the mapper is monotonic non-decreasing for the order
  "1" < "2" < "3" < "4" < "5" (the order of strings restricted to the five results), and
  the inputs -5, 0, 1, 2, 3, 4, 5, 7, 8, 100 give "1", "1", "2", "2", "3", "3", "4", "4",
  "5", "5".
\<close>

theorem gotify_priority_to_ntfy_mono:
  "(p \<le> q \<longrightarrow>
      gotify_priority_to_ntfy rt (PInt p) \<le> gotify_priority_to_ntfy rt (PInt q)) \<and>
   ''1'' < ''2'' \<and> ''2'' < ''3'' \<and> ''3'' < ''4'' \<and> ''4'' < ''5'' \<and>
   map (\<lambda>p. gotify_priority_to_ntfy rt (PInt p)) [-5, 0, 1, 2, 3, 4, 5, 7, 8, 100] =
     [''1'', ''1'', ''2'', ''2'', ''3'', ''3'', ''4'', ''4'', ''5'', ''5'']"
proof -
  have mono: "p \<le> q \<longrightarrow>
      gotify_priority_to_ntfy rt (PInt p) \<le> gotify_priority_to_ntfy rt (PInt q)"
    by (simp add: gotify_priority_to_ntfy_def)
  have ord: "''1'' < ''2'' \<and> ''2'' < ''3'' \<and> ''3'' < ''4'' \<and> ''4'' < ''5''"
    by simp
  have vals: "map (\<lambda>p. gotify_priority_to_ntfy rt (PInt p)) [-5, 0, 1, 2, 3, 4, 5, 7, 8, 100] =
     [''1'', ''1'', ''2'', ''2'', ''3'', ''3'', ''4'', ''4'', ''5'', ''5'']"
    by (simp add: gotify_priority_to_ntfy_def)
  from mono ord vals show ?thesis by blast
qed

theorem gotify_priority_to_ntfy_mono_witness:
  "(2::int) \<le> 5 \<and>
   gotify_priority_to_ntfy example_interp (PInt 2)
     \<le> gotify_priority_to_ntfy example_interp (PInt 5)"
  using gotify_priority_to_ntfy_mono [of 2 5 example_interp] by simp

section \<open>Facts about the built-ins\<close>

declare nat_digits.simps [simp del]

text \<open>The text of a non-negative integer is a digit string; a minus sign is not a digit.\<close>

lemma char_isdigit_digit_char: "char_isdigit (digit_char d)"
  by (simp add: char_isdigit_def digit_char_def decimal_value_def)

lemma nat_digits_isdigit: "nat_digits n \<noteq> [] \<and> list_all char_isdigit (nat_digits n)"
proof (induction n rule: nat_digits.induct)
  case (1 n)
  show ?case
  proof (cases "n < 10")
    case True
    then show ?thesis by (subst (1 2) nat_digits.simps) (simp add: char_isdigit_digit_char)
  next
    case False
    with 1 show ?thesis by (subst (1 2) nat_digits.simps) (simp add: char_isdigit_digit_char)
  qed
qed

lemma str_isdigit_int_str: "str_isdigit (int_str n) \<longleftrightarrow> 0 \<le> n"
  by (simp add: str_isdigit_def int_str_def nat_digits_isdigit char_isdigit_def decimal_value_def)

lemma str_isdigit_all: "str_isdigit s \<Longrightarrow> c \<in> set s \<Longrightarrow> char_isdigit c"
  by (simp add: str_isdigit_def list_all_iff)

text \<open>
  Whatever digits the interpreter produces for a float, its text has a decimal point or an
  exponent mark, or it is \<open>inf\<close>, \<open>-inf\<close> or \<open>nan\<close>: it is never a digit string.
\<close>

lemma format_float_short_mark:
  "CHR ''.'' \<in> set (format_float_short p) \<or> CHR ''e'' \<in> set (format_float_short p)"
  by (cases p) (simp add: format_float_short_def)

lemma not_isdigit_float_str: "\<not> str_isdigit (float_str rt f)"
proof (cases f)
  case (Finite neg m e)
  have a: "\<not> char_isdigit (CHR ''.'')" "\<not> char_isdigit (CHR ''e'')"
    by (simp_all add: char_isdigit_def decimal_value_def)
  have "CHR ''.'' \<in> set (float_str rt f) \<or> CHR ''e'' \<in> set (float_str rt f)"
    using format_float_short_mark [of "float_digits rt m e"] Finite by auto
  with a show ?thesis using str_isdigit_all by blast
next
  case (Inf neg)
  then show ?thesis by (simp add: str_isdigit_def char_isdigit_def decimal_value_def)
next
  case NaN
  then show ?thesis by (simp add: str_isdigit_def char_isdigit_def decimal_value_def)
qed

text \<open>Base64 text is ASCII, so decoding it as ASCII cannot fail.\<close>

lemma of_char_less_256: "(of_char c :: nat) < 256"
proof -
  have "(of_char c :: nat) mod 256 < 256" by simp
  then show ?thesis by (simp only: of_char_mod_256)
qed

lemma b64_char_alphabet: "n < 64 \<Longrightarrow> b64_char n \<in> set b64_alphabet"
proof -
  assume "n < 64"
  moreover have "length b64_alphabet = 64" by (simp add: b64_alphabet_def)
  ultimately show ?thesis unfolding b64_char_def by (metis nth_mem)
qed

lemma b64encode_alphabet: "c \<in> set (b64encode bs) \<Longrightarrow> c \<in> set b64_alphabet \<or> c = CHR ''=''"
proof (induction bs rule: b64encode.induct)
  case 1
  then show ?case by simp
next
  case (2 a)
  have "(of_char a :: nat) div 4 < 64" "((of_char a :: nat) mod 4) * 16 < 64"
    using of_char_less_256 [of a] by arith+
  with 2 show ?case by (auto simp add: Let_def b64_char_alphabet)
next
  case (3 a b)
  have "(of_char a :: nat) div 4 < 64" "((of_char a :: nat) mod 4) * 16 + (of_char b :: nat) div 16 < 64"
    "((of_char b :: nat) mod 16) * 4 < 64"
    using of_char_less_256 [of a] of_char_less_256 [of b] by arith+
  with 3 show ?case by (auto simp add: Let_def b64_char_alphabet)
next
  case (4 a b c' rest)
  have "(of_char a :: nat) div 4 < 64" "((of_char a :: nat) mod 4) * 16 + (of_char b :: nat) div 16 < 64"
    "((of_char b :: nat) mod 16) * 4 + (of_char c' :: nat) div 64 < 64" "(of_char c' :: nat) mod 64 < 64"
    using of_char_less_256 [of a] of_char_less_256 [of b] of_char_less_256 [of c'] by arith+
  with 4 show ?case by (auto simp add: Let_def b64_char_alphabet)
qed

lemma b64encode_ascii: "c \<in> set (b64encode bs) \<Longrightarrow> (of_char c :: nat) < 128"
  using b64encode_alphabet [of c bs] by (auto simp add: b64_alphabet_def)

lemma utf8_encode_ascii: "list_all (\<lambda>c. (of_char c :: nat) < 128) s \<Longrightarrow> utf8_encode s = s"
  by (induction s) (simp_all add: utf8_encode_def utf8_char_def)

lemma str_strip_id:
  "s \<noteq> [] \<Longrightarrow> \<not> py_isspace (hd s) \<Longrightarrow> \<not> py_isspace (last s) \<Longrightarrow> str_strip s = s"
proof -
  assume a: "s \<noteq> []" "\<not> py_isspace (hd s)" "\<not> py_isspace (last s)"
  then have "dropWhile py_isspace s = s" by (cases s) simp_all
  moreover from a have "dropWhile py_isspace (rev s) = rev s"
    by (cases "rev s") (simp_all add: last_rev [symmetric] hd_rev)
  ultimately show ?thesis by (simp add: str_strip_def strip_with_def)
qed

section \<open>The call the publisher builds\<close>

text \<open>The header dict, item by item.\<close>

lemma ntfy_request_headers:
  "headers (ntfy_request cfg topic title message priority tags) =
     [(''Priority'', priority), (''Tags'', tags)] @
     (if title = [] then [] else [(''Title'', title)]) @ ntfy_auth_header cfg"
  by (simp add: ntfy_request_def dict_update_def ntfy_auth_header_def Let_def)

lemma ntfy_request_url:
  "url (ntfy_request cfg topic title message priority tags) = ntfy_server cfg @ ''/'' @ topic"
  by (simp add: ntfy_request_def Let_def)

lemma ntfy_request_data:
  "data (ntfy_request cfg topic title message priority tags) = utf8_encode message"
  by (simp add: ntfy_request_def Let_def)

lemma publish_to_ntfy_calls:
  "snd (publish_to_ntfy cfg post topic title message priority tags) =
     [ntfy_request cfg topic title message priority tags]"
  by (simp add: publish_to_ntfy_def Let_def)

lemma ntfy_request_password:
  "ntfy_username cfg = [] \<Longrightarrow>
   ntfy_request (cfg\<lparr>ntfy_password := p1\<rparr>) topic title message priority tags =
   ntfy_request (cfg\<lparr>ntfy_password := p2\<rparr>) topic title message priority tags"
  by (simp add: ntfy_request_def ntfy_auth_header_def Let_def)

section \<open>The three ways through the endpoint\<close>

text \<open>
  A request whose body cannot be read fails as the reading failed; one with neither title nor
  message is refused with 400; every other request is published once, and the outcome of
  that call decides the result.
\<close>

lemma gotify_message_unreadable:
  "read_body rt request = Inl err \<Longrightarrow> gotify_message rt cfg post request = (Inl err, [])"
  by (simp add: gotify_message_def Let_def)

lemma gotify_message_missing:
  "read_body rt request = Inr ([], [], priority_val, extras) \<Longrightarrow>
   gotify_message rt cfg post request = (Inl (HTTPException 400 ''Missing title/message''), [])"
  by (simp add: gotify_message_def Let_def)

lemma gotify_message_accepted:
  assumes "read_body rt request = Inr (title, message, priority_val, extras)"
    and "title \<noteq> [] \<or> message \<noteq> []"
  shows "gotify_message rt cfg post request =
    (let call = ntfy_request cfg
           (case map_of (token_topic_map cfg)
                   (case query_token request of None \<Rightarrow> [] | Some t \<Rightarrow> t) of
              None \<Rightarrow> default_topic cfg | Some t \<Rightarrow> t)
           (if title \<noteq> [] then str_strip (title_prefix cfg @ title)
            else str_strip (title_prefix cfg))
           (if message \<noteq> [] then message else title)
           (gotify_priority_to_ntfy rt priority_val)
           (case extras of None \<Rightarrow> default_tags cfg
            | Some e \<Rightarrow> if e \<noteq> [] then default_tags cfg @ '',extras'' else default_tags cfg)
     in (case post call of
           RequestException e \<Rightarrow> Inl (HTTPException 502 (''Failed to reach ntfy: '' @ e))
         | Response st txt \<Rightarrow>
             if 400 \<le> st then
               Inl (HTTPException 502 (''ntfy returned '' @ int_str st @ '': '' @ take 200 txt))
             else if str_isdigit (py_str rt priority_val) then
               (case py_int rt priority_val of
                  Inl e \<Rightarrow> Inl (Unhandled e)
                | Inr n \<Rightarrow> Inr \<lparr>resp_id = 0, resp_appid = 0, resp_title = title,
                              resp_message = message, resp_priority = n\<rparr>)
             else Inr \<lparr>resp_id = 0, resp_appid = 0, resp_title = title,
                       resp_message = message, resp_priority = 0\<rparr>,
         [call]))"
  using assms
  by (auto simp add: gotify_message_def Let_def publish_to_ntfy_def split: post_outcome.split)

lemma gotify_message_cases:
  obtains (unreadable) err where "read_body rt request = Inl err"
      "gotify_message rt cfg post request = (Inl err, [])"
  | (missing) priority_val extras where "read_body rt request = Inr ([], [], priority_val, extras)"
      "gotify_message rt cfg post request = (Inl (HTTPException 400 ''Missing title/message''), [])"
  | (accepted) title message priority_val extras where
      "read_body rt request = Inr (title, message, priority_val, extras)"
      "title \<noteq> [] \<or> message \<noteq> []"
proof (cases "read_body rt request")
  case (Inl err)
  with unreadable show ?thesis by (simp add: gotify_message_unreadable)
next
  case (Inr r)
  obtain title message priority_val extras where r: "r = (title, message, priority_val, extras)"
    by (cases r) auto
  show ?thesis
  proof (cases "title = [] \<and> message = []")
    case True
    with Inr r have "read_body rt request = Inr ([], [], priority_val, extras)" by simp
    with missing show ?thesis by (simp add: gotify_message_missing)
  next
    case False
    with Inr r accepted show ?thesis by simp
  qed
qed

lemma gotify_message_calls:
  assumes "read_body rt request = Inr (title, message, priority_val, extras)"
    and "title \<noteq> [] \<or> message \<noteq> []"
  shows "snd (gotify_message rt cfg post request) =
    [ntfy_request cfg
       (case map_of (token_topic_map cfg) (case query_token request of None \<Rightarrow> [] | Some t \<Rightarrow> t) of
          None \<Rightarrow> default_topic cfg | Some t \<Rightarrow> t)
       (if title \<noteq> [] then str_strip (title_prefix cfg @ title) else str_strip (title_prefix cfg))
       (if message \<noteq> [] then message else title)
       (gotify_priority_to_ntfy rt priority_val)
       (case extras of None \<Rightarrow> default_tags cfg
        | Some e \<Rightarrow> if e \<noteq> [] then default_tags cfg @ '',extras'' else default_tags cfg)]"
  by (simp only: gotify_message_accepted [OF assms] Let_def snd_conv)

lemma gotify_message_password:
  assumes "ntfy_username cfg = []"
  shows "gotify_message rt (cfg\<lparr>ntfy_password := p1\<rparr>) post request =
         gotify_message rt (cfg\<lparr>ntfy_password := p2\<rparr>) post request"
proof (cases rule: gotify_message_cases [of rt request cfg post])
  case (unreadable err)
  then show ?thesis by (simp add: gotify_message_unreadable)
next
  case (missing priority_val extras)
  then show ?thesis by (simp add: gotify_message_missing)
next
  case (accepted title message priority_val extras)
  show ?thesis
    by (simp add: gotify_message_accepted [OF accepted] Let_def
        ntfy_request_password [OF assms, of p1 _ _ _ _ _ p2]
        cong: option.case_cong if_cong)
qed

text \<open>
  The simplification rules that evaluate the model on a concrete request, and the reading of
  two example requests.
\<close>

lemmas eval_simps = read_body_def str_lower_def char_lower_def dict_get_def form_get_def py_or_def
  Let_def ntfy_request_def ntfy_auth_header_def dict_update_def utf8_encode_def utf8_char_def
  str_strip_def strip_with_def py_isspace_def int_isspace_def over_limit_def
  gotify_priority_to_ntfy_def int_str_def nat_digits.simps digit_char_def str_isdigit_def
  char_isdigit_def decimal_value_def str_to_int_def

lemma read_example_request:
  "read_body example_interp example_request = Inr (''T'', ''M'', PInt 8, None)"
  by (simp add: eval_simps)

lemma read_title_only:
  "read_body example_interp (json_request None [(''title'', PStr ''T'')]) =
     Inr (''T'', [], PNone, None)"
  by (simp add: eval_simps)

section \<open>Properties of the publisher\<close>

text \<open>
  Claim C8. The publisher makes one call, the one built by \<open>ntfy_request\<close>. Its headers
  have \<open>Priority\<close> and \<open>Tags\<close>, with the values passed in, and they have \<open>Title\<close>, with the
  title passed in, exactly when that title is not empty. Every call the endpoint makes
  has \<open>Priority\<close> and \<open>Tags\<close>.
\<close>

theorem publish_headers:
  "snd (publish_to_ntfy cfg post topic title message priority tags) =
     [ntfy_request cfg topic title message priority tags] \<and>
   map_of (headers (ntfy_request cfg topic title message priority tags)) ''Priority'' = Some priority \<and>
   map_of (headers (ntfy_request cfg topic title message priority tags)) ''Tags'' = Some tags \<and>
   map_of (headers (ntfy_request cfg topic title message priority tags)) ''Title'' =
     (if title = [] then None else Some title) \<and>
   (\<forall>c\<in>set (snd (gotify_message rt cfg post request)).
      map_of (headers c) ''Priority'' \<noteq> None \<and> map_of (headers c) ''Tags'' \<noteq> None)"
proof -
  have a: "snd (publish_to_ntfy cfg post topic title message priority tags) =
     [ntfy_request cfg topic title message priority tags]"
    by (rule publish_to_ntfy_calls)
  have b: "map_of (headers (ntfy_request cfg topic title message priority tags)) ''Priority'' = Some priority"
    for title and message and priority and tags and topic
    by (simp add: ntfy_request_headers)
  have c: "map_of (headers (ntfy_request cfg topic title message priority tags)) ''Tags'' = Some tags"
    for title and message and priority and tags and topic
    by (simp add: ntfy_request_headers)
  have d: "map_of (headers (ntfy_request cfg topic title message priority tags)) ''Title'' =
     (if title = [] then None else Some title)"
    by (simp add: ntfy_request_headers ntfy_auth_header_def)
  have e: "\<forall>c\<in>set (snd (gotify_message rt cfg post request)).
      map_of (headers c) ''Priority'' \<noteq> None \<and> map_of (headers c) ''Tags'' \<noteq> None"
  proof (cases rule: gotify_message_cases [of rt request cfg post])
    case (unreadable err)
    then show ?thesis by simp
  next
    case (missing priority_val extras)
    then show ?thesis by simp
  next
    case (accepted title message priority_val extras)
    show ?thesis
      by (simp add: gotify_message_calls [OF accepted] b c)
  qed
  from a b c d e show ?thesis by blast
qed

theorem publish_headers_witness:
  "map_of (headers (ntfy_request example_config ''alerts'' [] ''M'' ''3'' ''gotify,adapter''))
     ''Title'' = None \<and>
   map_of (headers (ntfy_request example_config ''alerts'' ''T'' ''M'' ''3'' ''gotify,adapter''))
     ''Title'' = Some ''T'' \<and>
   map_of (headers (ntfy_request example_config ''alerts'' ''T'' ''M'' ''3'' ''gotify,adapter''))
     ''Priority'' = Some ''3'' \<and>
   map_of (headers (ntfy_request example_config ''alerts'' ''T'' ''M'' ''3'' ''gotify,adapter''))
     ''Tags'' = Some ''gotify,adapter'' \<and>
   list_all (\<lambda>c. map_of (headers c) ''Priority'' = Some ''5'')
     (snd (gotify_message example_interp example_config post_ok example_request))"
proof -
  have p: "list_all (\<lambda>c. map_of (headers c) ''Priority'' = Some ''5'')
     (snd (gotify_message example_interp example_config post_ok example_request))"
    by (simp add: gotify_message_calls [OF read_example_request] ntfy_request_headers
        gotify_priority_to_ntfy_def)
  from p
    publish_headers [of example_config post_ok "''alerts''" "[]" "''M''" "''3''"
      "''gotify,adapter''" example_interp example_request]
    publish_headers [of example_config post_ok "''alerts''" "''T''" "''M''" "''3''"
      "''gotify,adapter''" example_interp example_request]
  show ?thesis by simp
qed



text \<open>
  Claim C7. With no username configured (the empty string), no call has an
  \<open>Authorization\<close> header, and the call built and the whole behaviour of the endpoint
  (its result and its calls) are the same for any two passwords. With a username configured
  the header is \<open>Basic\<close> followed by the base64 text of \<open>username:password\<close>.
\<close>

theorem ntfy_auth_header_username:
  "(ntfy_username cfg = [] \<longrightarrow>
      map_of (headers (ntfy_request cfg topic title message priority tags)) ''Authorization'' = None \<and>
      (\<forall>c\<in>set (snd (gotify_message rt cfg post request)).
         map_of (headers c) ''Authorization'' = None) \<and>
      ntfy_request (cfg\<lparr>ntfy_password := p1\<rparr>) topic title message priority tags =
        ntfy_request (cfg\<lparr>ntfy_password := p2\<rparr>) topic title message priority tags \<and>
      gotify_message rt (cfg\<lparr>ntfy_password := p1\<rparr>) post request =
        gotify_message rt (cfg\<lparr>ntfy_password := p2\<rparr>) post request) \<and>
   (ntfy_username cfg \<noteq> [] \<longrightarrow>
      map_of (headers (ntfy_request cfg topic title message priority tags)) ''Authorization'' =
        Some (''Basic '' @ b64encode (utf8_encode (ntfy_username cfg @ '':'' @ ntfy_password cfg))))"
proof (cases "ntfy_username cfg = []")
  case True
  have a: "map_of (headers (ntfy_request cfg topic title message priority tags)) ''Authorization'' = None"
    for topic and title and message and priority and tags
    using True by (simp add: ntfy_request_headers ntfy_auth_header_def)
  have b: "\<forall>c\<in>set (snd (gotify_message rt cfg post request)).
         map_of (headers c) ''Authorization'' = None"
  proof (cases rule: gotify_message_cases [of rt request cfg post])
    case (unreadable err)
    then show ?thesis by simp
  next
    case (missing priority_val extras)
    then show ?thesis by simp
  next
    case (accepted title message priority_val extras)
    show ?thesis by (simp add: gotify_message_calls [OF accepted] a)
  qed
  from True a b ntfy_request_password [OF True] gotify_message_password [OF True]
  show ?thesis by blast
next
  case False
  then show ?thesis by (simp add: ntfy_request_headers ntfy_auth_header_def Let_def)
qed

theorem ntfy_auth_header_username_witness:
  "map_of (headers (ntfy_request (example_config\<lparr>ntfy_password := ''secret''\<rparr>)
       ''info'' ''T'' ''M'' ''3'' ''gotify,adapter'')) ''Authorization'' = None \<and>
   map_of (headers (ntfy_request (example_config\<lparr>ntfy_username := ''u'', ntfy_password := ''p''\<rparr>)
       ''info'' ''T'' ''M'' ''3'' ''gotify,adapter'')) ''Authorization'' = Some ''Basic dTpw''"
proof -
  have enc: "b64encode (utf8_encode ''u:p'') = ''dTpw''"
    by (simp add: utf8_encode_def utf8_char_def b64_char_def b64_alphabet_def)
  show ?thesis
    using
      ntfy_auth_header_username [of "example_config\<lparr>ntfy_password := ''secret''\<rparr>"
        "''info''" "''T''" "''M''" "''3''" "''gotify,adapter''"]
      ntfy_auth_header_username [of
        "example_config\<lparr>ntfy_username := ''u'', ntfy_password := ''p''\<rparr>"
        "''info''" "''T''" "''M''" "''3''" "''gotify,adapter''"]
      enc
    by simp
qed

section \<open>Properties of the endpoint\<close>

text \<open>
  Claim C5. A request that is published (its body is readable and it has a title or a
  message) is published once, whatever its token is: to the topic the token maps to when
  the token is a key of the map, and to the default topic otherwise. A missing \<open>token\<close>
  parameter counts as the empty token, which is looked up like any other.
\<close>

theorem topic_resolution:
  assumes "read_body rt request = Inr (title, message, priority_val, extras)"
    and "title \<noteq> [] \<or> message \<noteq> []"
  shows "\<exists>c. snd (gotify_message rt cfg post request) = [c] \<and>
    (\<forall>t. query_token request = Some t \<or> query_token request = None \<and> t = [] \<longrightarrow>
       (\<forall>x. map_of (token_topic_map cfg) t = Some x \<longrightarrow> url c = ntfy_server cfg @ ''/'' @ x) \<and>
       (t \<notin> fst ` set (token_topic_map cfg) \<longrightarrow>
          url c = ntfy_server cfg @ ''/'' @ default_topic cfg))"
proof -
  have "map_of (token_topic_map cfg) t = None" if "t \<notin> fst ` set (token_topic_map cfg)" for t
    using that by (simp add: map_of_eq_None_iff)
  then show ?thesis
    by (auto simp add: gotify_message_calls [OF assms] ntfy_request_url)
qed

theorem topic_resolution_witness:
  "map url (snd (gotify_message example_interp example_config post_ok example_request)) =
     [''https://ntfy.example.com/alerts''] \<and>
   map url (snd (gotify_message example_interp example_config post_ok
     (json_request None [(''title'', PStr ''T'')]))) =
     [''https://ntfy.example.com/info'']"
proof -
  from topic_resolution [OF read_example_request, of example_config post_ok]
  obtain c where
    c: "snd (gotify_message example_interp example_config post_ok example_request) = [c]"
      "url c = ''https://ntfy.example.com/alerts''"
    by auto
  from topic_resolution [OF read_title_only, of example_config post_ok]
  obtain d where
    d: "snd (gotify_message example_interp example_config post_ok
          (json_request None [(''title'', PStr ''T'')])) = [d]"
      "url d = ''https://ntfy.example.com/info''"
    by auto
  from c d show ?thesis by simp
qed

text \<open>
  Claim C3. When the title and the message read from the body are both empty, the endpoint
  fails with 400 and the detail \<open>Missing title/message\<close>, and makes no call. When one of
  them is not empty, it makes one call and does not fail with any 400.
\<close>

theorem missing_content:
  assumes "read_body rt request = Inr (title, message, priority_val, extras)"
  shows "(title = [] \<and> message = [] \<longrightarrow>
            gotify_message rt cfg post request =
              (Inl (HTTPException 400 ''Missing title/message''), [])) \<and>
         (title \<noteq> [] \<or> message \<noteq> [] \<longrightarrow>
            (\<forall>d. fst (gotify_message rt cfg post request) \<noteq> Inl (HTTPException 400 d)) \<and>
            length (snd (gotify_message rt cfg post request)) = 1)"
proof (cases "title = [] \<and> message = []")
  case True
  with assms show ?thesis by (simp add: gotify_message_missing)
next
  case False
  then have ne: "title \<noteq> [] \<or> message \<noteq> []" by simp
  have "\<forall>d. fst (gotify_message rt cfg post request) \<noteq> Inl (HTTPException 400 d)"
    by (simp add: gotify_message_accepted [OF assms ne] Let_def
        split: post_outcome.split sum.split)
  moreover have "length (snd (gotify_message rt cfg post request)) = 1"
    by (simp add: gotify_message_calls [OF assms ne])
  ultimately show ?thesis using False by blast
qed

theorem missing_content_witness:
  "gotify_message example_interp example_config post_ok
     (json_request (Some ''tok'') [(''priority'', PInt 5)]) =
     (Inl (HTTPException 400 ''Missing title/message''), []) \<and>
   length (snd (gotify_message example_interp example_config post_ok
     (json_request None [(''title'', PStr ''T'')]))) = 1"
proof -
  have a: "read_body example_interp (json_request (Some ''tok'') [(''priority'', PInt 5)]) =
      Inr ([], [], PInt 5, None)"
    by (simp add: eval_simps)
  from missing_content [OF a, of example_config post_ok]
       missing_content [OF read_title_only, of example_config post_ok]
  show ?thesis by simp
qed

text \<open>
  Claim C9. When the message read from the body is empty and the title is not, the body of
  the call is the UTF-8 encoding of the title, and a success response still echoes the
  empty message (and the title).
\<close>

theorem empty_message_body:
  assumes "read_body rt request = Inr (title, [], priority_val, extras)" and "title \<noteq> []"
  shows "(\<exists>c. snd (gotify_message rt cfg post request) = [c] \<and> data c = utf8_encode title) \<and>
         (\<forall>r. fst (gotify_message rt cfg post request) = Inr r \<longrightarrow>
            resp_message r = [] \<and> resp_title r = title)"
proof -
  from assms(2) have ne: "title \<noteq> [] \<or> ([]::string) \<noteq> []" by simp
  have a: "\<exists>c. snd (gotify_message rt cfg post request) = [c] \<and> data c = utf8_encode title"
    using assms(2) by (simp add: gotify_message_calls [OF assms(1) ne] ntfy_request_data)
  have b: "\<forall>r. fst (gotify_message rt cfg post request) = Inr r \<longrightarrow>
            resp_message r = [] \<and> resp_title r = title"
    by (auto simp add: gotify_message_accepted [OF assms(1) ne] Let_def
        split: post_outcome.splits sum.splits if_splits)
  from a b show ?thesis by simp
qed

theorem empty_message_body_witness:
  "map data (snd (gotify_message example_interp example_config post_ok
     (json_request None [(''title'', PStr ''T'')]))) = [''T''] \<and>
   fst (gotify_message example_interp example_config post_ok
     (json_request None [(''title'', PStr ''T'')])) =
     Inr \<lparr>resp_id = 0, resp_appid = 0, resp_title = ''T'', resp_message = [],
          resp_priority = 0\<rparr>"
proof -
  have ne: "''T'' \<noteq> []" by simp
  have r: "fst (gotify_message example_interp example_config post_ok
       (json_request None [(''title'', PStr ''T'')])) =
     Inr \<lparr>resp_id = 0, resp_appid = 0, resp_title = ''T'', resp_message = [],
          resp_priority = 0\<rparr>"
    by (simp add: gotify_message_accepted [OF read_title_only] Let_def str_isdigit_def
        char_isdigit_def decimal_value_def)
  have e: "utf8_encode ''T'' = ''T''" by (simp add: utf8_encode_def utf8_char_def)
  from empty_message_body [OF read_title_only ne, of example_config post_ok] r e
  show ?thesis by auto
qed

text \<open>
  Claim C10. In a success response the echoed priority is \<^verbatim>\<open>int(raw)\<close> when the text of
  the raw priority is a digit string, and 0 otherwise. So it is 0 for a negative integer and
  for every float, also where the priority mapper has read the same value as an integer
  (-5 gives the header \<open>Priority: 1\<close>, 8.5 gives \<open>Priority: 5\<close>).
\<close>

theorem response_priority:
  assumes "read_body rt request = Inr (title, message, priority_val, extras)"
    and "fst (gotify_message rt cfg post request) = Inr r"
  shows "(str_isdigit (py_str rt priority_val) \<longrightarrow> py_int rt priority_val = Inr (resp_priority r)) \<and>
         (\<not> str_isdigit (py_str rt priority_val) \<longrightarrow> resp_priority r = 0) \<and>
         (\<forall>n. priority_val = PInt n \<longrightarrow> resp_priority r = (if 0 \<le> n then n else 0)) \<and>
         (\<forall>f. priority_val = PFloat f \<longrightarrow> resp_priority r = 0)"
proof -
  have ne: "title \<noteq> [] \<or> message \<noteq> []"
  proof (rule ccontr)
    assume "\<not> (title \<noteq> [] \<or> message \<noteq> [])"
    with assms(1) have "read_body rt request = Inr ([], [], priority_val, extras)" by simp
    from gotify_message_missing [OF this, of cfg post] assms(2) show False by simp
  qed
  have a: "str_isdigit (py_str rt priority_val) \<longrightarrow> py_int rt priority_val = Inr (resp_priority r)"
    using assms(2)
    by (auto simp add: gotify_message_accepted [OF assms(1) ne] Let_def
        split: post_outcome.splits sum.splits if_splits)
  have b: "\<not> str_isdigit (py_str rt priority_val) \<longrightarrow> resp_priority r = 0"
    using assms(2)
    by (auto simp add: gotify_message_accepted [OF assms(1) ne] Let_def
        split: post_outcome.splits sum.splits if_splits)
  have c: "\<forall>n. priority_val = PInt n \<longrightarrow> resp_priority r = (if 0 \<le> n then n else 0)"
    using a b by (auto simp add: str_isdigit_int_str)
  have d: "\<forall>f. priority_val = PFloat f \<longrightarrow> resp_priority r = 0"
    using b by (auto simp add: not_isdigit_float_str)
  from a b c d show ?thesis by blast
qed

theorem response_priority_witness:
  "(\<exists>r. fst (gotify_message example_interp example_config post_ok
            (json_request None [(''title'', PStr ''T''), (''priority'', PInt (- 5))])) = Inr r \<and>
        resp_priority r = 0) \<and>
   map (\<lambda>c. map_of (headers c) ''Priority'')
     (snd (gotify_message example_interp example_config post_ok
        (json_request None [(''title'', PStr ''T''), (''priority'', PInt (- 5))]))) =
     [Some ''1''] \<and>
   (\<exists>r. fst (gotify_message example_interp example_config post_ok
            (json_request None
               [(''title'', PStr ''T''), (''priority'', PFloat (Finite False 17 (- 1)))])) =
          Inr r \<and>
        resp_priority r = 0) \<and>
   map (\<lambda>c. map_of (headers c) ''Priority'')
     (snd (gotify_message example_interp example_config post_ok
        (json_request None
           [(''title'', PStr ''T''), (''priority'', PFloat (Finite False 17 (- 1)))]))) =
     [Some ''5''] \<and>
   (\<exists>r. fst (gotify_message example_interp example_config post_ok
            (form_request None [(''message'', PStr ''M''), (''priority'', PStr ''7'')])) = Inr r \<and>
        resp_priority r = 7)"
proof -
  let ?run = "gotify_message example_interp example_config post_ok"
  let ?neg = "json_request None [(''title'', PStr ''T''), (''priority'', PInt (- 5))]"
  let ?flt = "json_request None
    [(''title'', PStr ''T''), (''priority'', PFloat (Finite False 17 (- 1)))]"
  let ?frm = "form_request None [(''message'', PStr ''M''), (''priority'', PStr ''7'')]"
  have a: "read_body example_interp ?neg = Inr (''T'', [], PInt (- 5), None)"
    by (simp add: eval_simps)
  have b: "read_body example_interp ?flt =
      Inr (''T'', [], PFloat (Finite False 17 (- 1)), None)"
    by (simp add: eval_simps)
  have c: "read_body example_interp ?frm = Inr ([], ''M'', PStr ''7'', None)"
    by (simp add: eval_simps)
  have ra: "\<exists>r. fst (?run ?neg) = Inr r"
    by (simp add: gotify_message_accepted [OF a] Let_def str_isdigit_int_str)
  have rb: "\<exists>r. fst (?run ?flt) = Inr r"
    by (simp add: gotify_message_accepted [OF b] Let_def not_isdigit_float_str)
  have rc: "\<exists>r. fst (?run ?frm) = Inr r"
    by (simp add: gotify_message_accepted [OF c] Let_def eval_simps)
  have i7: "py_int example_interp (PStr ''7'') = Inr 7"
    "str_isdigit (py_str example_interp (PStr ''7''))"
    by (simp_all add: eval_simps)
  have pa: "map (\<lambda>c. map_of (headers c) ''Priority'') (snd (?run ?neg)) = [Some ''1'']"
    by (simp add: gotify_message_calls [OF a] ntfy_request_headers gotify_priority_to_ntfy_def)
  have pb: "map (\<lambda>c. map_of (headers c) ''Priority'') (snd (?run ?flt)) = [Some ''5'']"
    by (simp add: gotify_message_calls [OF b] ntfy_request_headers gotify_priority_to_ntfy_def)
  from ra obtain r1 where r1: "fst (?run ?neg) = Inr r1" ..
  from rb obtain r2 where r2: "fst (?run ?flt) = Inr r2" ..
  from rc obtain r3 where r3: "fst (?run ?frm) = Inr r3" ..
  from response_priority [OF a r1] have q1: "resp_priority r1 = 0" by simp
  from response_priority [OF b r2] have q2: "resp_priority r2 = 0" by simp
  from response_priority [OF c r3] i7 have q3: "resp_priority r3 = 7" by simp
  from r1 r2 r3 q1 q2 q3 pa pb show ?thesis by simp
qed

text \<open>
  The theorem speaks of a success response only. A digit string that \<^verbatim>\<open>int()\<close> does not read,
  such as the superscript two, passes \<^verbatim>\<open>isdigit\<close>: then line 179 raises \<^verbatim>\<open>ValueError\<close> after
  the notification has been published (with the default priority 3), and there is no
  success response.
\<close>

lemma superscript_priority_unhandled:
  "gotify_message example_interp example_config post_ok
     (json_request None [(''title'', PStr ''T''), (''priority'', PStr [CHR 0xB2])]) =
     (Inl (Unhandled ValueError),
      [\<lparr>url = ''https://ntfy.example.com/info'', data = ''T'',
        headers = [(''Priority'', ''3''), (''Tags'', ''gotify,adapter''), (''Title'', ''T'')],
        timeout = 10\<rparr>])"
proof -
  have a: "read_body example_interp
      (json_request None [(''title'', PStr ''T''), (''priority'', PStr [CHR 0xB2])]) =
      Inr (''T'', [], PStr [CHR 0xB2], None)"
    by (simp add: eval_simps)
  show ?thesis
    by (simp add: gotify_message_accepted [OF a] eval_simps)
qed

text \<open>
  Claim C2, as amended. A JSON body with title \<open>T\<close>, message \<open>M\<close> (both non-empty
  strings) and priority 8, sent with a JSON content type and a token mapped to the topic
  \<open>X\<close>, gives one call to \<open>server/X\<close> with \<open>Priority: 5\<close> and with body the UTF-8
  encoding of \<open>M\<close> (which is \<open>M\<close> itself when \<open>M\<close> is ASCII). Its \<open>Title\<close> header is
  \<open>prefix + T\<close> with the whitespace at both ends stripped; this is \<open>prefix + T\<close> itself when
  that text neither starts nor ends with whitespace. When the call returns a status below
  400, the response echoes \<open>T\<close>, \<open>M\<close> and 8.
\<close>

theorem json_message_forwarded:
  assumes "content_type request = Some ct" and "str_contains ''application/json'' (str_lower ct)"
    and "json_body request = Inr (PDict kvs)"
    and "dict_get kvs ''title'' = PStr T" and "T \<noteq> []"
    and "dict_get kvs ''message'' = PStr M" and "M \<noteq> []"
    and "dict_get kvs ''priority'' = PInt 8"
    and "query_token request = Some token" and "map_of (token_topic_map cfg) token = Some X"
  shows "\<exists>c. snd (gotify_message rt cfg post request) = [c] \<and>
      url c = ntfy_server cfg @ ''/'' @ X \<and>
      map_of (headers c) ''Priority'' = Some ''5'' \<and>
      map_of (headers c) ''Title'' =
        (if str_strip (title_prefix cfg @ T) = [] then None
         else Some (str_strip (title_prefix cfg @ T))) \<and>
      (\<not> py_isspace (hd (title_prefix cfg @ T)) \<and> \<not> py_isspace (last T) \<longrightarrow>
         map_of (headers c) ''Title'' = Some (title_prefix cfg @ T)) \<and>
      data c = utf8_encode M \<and>
      (list_all (\<lambda>x. (of_char x :: nat) < 128) M \<longrightarrow> data c = M) \<and>
      (\<forall>st txt. post c = Response st txt \<and> st < 400 \<longrightarrow>
         fst (gotify_message rt cfg post request) =
           Inr \<lparr>resp_id = 0, resp_appid = 0, resp_title = T, resp_message = M,
                resp_priority = 8\<rparr>)"
proof -
  have rb: "read_body rt request =
      Inr (T, M, PInt 8, case dict_get kvs ''extras'' of PDict e \<Rightarrow> Some e | _ \<Rightarrow> None)"
    using assms by (simp add: read_body_def Let_def py_or_def)
  have ne: "T \<noteq> [] \<or> M \<noteq> []" using assms by simp
  have prio: "gotify_priority_to_ntfy rt (PInt 8) = ''5''"
    by (simp add: gotify_priority_to_ntfy_def)
  have dig: "str_isdigit (py_str rt (PInt 8))"
    by (simp add: str_isdigit_int_str)
  let ?c = "hd (snd (gotify_message rt cfg post request))"
  have calls: "snd (gotify_message rt cfg post request) = [?c]"
    by (simp add: gotify_message_calls [OF rb ne])
  have u: "url ?c = ntfy_server cfg @ ''/'' @ X"
    using assms by (simp add: gotify_message_calls [OF rb ne] ntfy_request_url)
  have p: "map_of (headers ?c) ''Priority'' = Some ''5''"
    by (simp add: gotify_message_calls [OF rb ne] ntfy_request_headers prio)
  have t: "map_of (headers ?c) ''Title'' =
        (if str_strip (title_prefix cfg @ T) = [] then None
         else Some (str_strip (title_prefix cfg @ T)))"
    using assms
    by (simp add: gotify_message_calls [OF rb ne] ntfy_request_headers ntfy_auth_header_def)
  have t': "\<not> py_isspace (hd (title_prefix cfg @ T)) \<and> \<not> py_isspace (last T) \<longrightarrow>
         map_of (headers ?c) ''Title'' = Some (title_prefix cfg @ T)"
  proof
    assume h: "\<not> py_isspace (hd (title_prefix cfg @ T)) \<and> \<not> py_isspace (last T)"
    from assms have n: "title_prefix cfg @ T \<noteq> []" by simp
    from assms have "last (title_prefix cfg @ T) = last T" by simp
    with h n have "str_strip (title_prefix cfg @ T) = title_prefix cfg @ T"
      by (simp add: str_strip_id)
    with t n show "map_of (headers ?c) ''Title'' = Some (title_prefix cfg @ T)" by simp
  qed
  have d: "data ?c = utf8_encode M"
    using assms by (simp add: gotify_message_calls [OF rb ne] ntfy_request_data)
  have d': "list_all (\<lambda>x. (of_char x :: nat) < 128) M \<longrightarrow> data ?c = M"
    using d by (simp add: utf8_encode_ascii)
  have r: "\<forall>st txt. post ?c = Response st txt \<and> st < 400 \<longrightarrow>
         fst (gotify_message rt cfg post request) =
           Inr \<lparr>resp_id = 0, resp_appid = 0, resp_title = T, resp_message = M,
                resp_priority = 8\<rparr>"
    using dig by (auto simp add: gotify_message_accepted [OF rb ne] Let_def)
  from calls u p t t' d d' r show ?thesis by blast
qed

theorem json_message_forwarded_witness:
  "gotify_message example_interp (example_config\<lparr>title_prefix := ''[gotify] ''\<rparr>) post_ok
     example_request =
     (Inr \<lparr>resp_id = 0, resp_appid = 0, resp_title = ''T'', resp_message = ''M'',
           resp_priority = 8\<rparr>,
      [\<lparr>url = ''https://ntfy.example.com/alerts'', data = ''M'',
        headers = [(''Priority'', ''5''), (''Tags'', ''gotify,adapter''),
                   (''Title'', ''[gotify] T'')],
        timeout = 10\<rparr>])"
proof -
  let ?cfg = "example_config\<lparr>title_prefix := ''[gotify] ''\<rparr>"
  let ?kvs = "[(''title'', PStr ''T''), (''message'', PStr ''M''), (''priority'', PInt 8)]"
  have calls: "snd (gotify_message example_interp ?cfg post_ok example_request) =
     [\<lparr>url = ''https://ntfy.example.com/alerts'', data = ''M'',
       headers = [(''Priority'', ''5''), (''Tags'', ''gotify,adapter''),
                  (''Title'', ''[gotify] T'')],
       timeout = 10\<rparr>]"
    by (simp add: gotify_message_calls [OF read_example_request] eval_simps)
  have h: "content_type example_request = Some ''application/json''"
    "str_contains ''application/json'' (str_lower ''application/json'')"
    "json_body example_request = Inr (PDict ?kvs)"
    "dict_get ?kvs ''title'' = PStr ''T''"
    "''T'' \<noteq> []"
    "dict_get ?kvs ''message'' = PStr ''M''"
    "''M'' \<noteq> []"
    "dict_get ?kvs ''priority'' = PInt 8"
    "query_token example_request = Some ''tok''"
    "map_of (token_topic_map ?cfg) ''tok'' = Some ''alerts''"
    by (simp_all add: str_lower_def char_lower_def dict_get_def)
  from json_message_forwarded [OF h, of example_interp post_ok]
  obtain c where c: "snd (gotify_message example_interp ?cfg post_ok example_request) = [c]"
    and r: "\<forall>st txt. post_ok c = Response st txt \<and> st < 400 \<longrightarrow>
      fst (gotify_message example_interp ?cfg post_ok example_request) =
        Inr \<lparr>resp_id = 0, resp_appid = 0, resp_title = ''T'', resp_message = ''M'',
             resp_priority = 8\<rparr>"
    by blast
  from r have "fst (gotify_message example_interp ?cfg post_ok example_request) =
       Inr \<lparr>resp_id = 0, resp_appid = 0, resp_title = ''T'', resp_message = ''M'',
            resp_priority = 8\<rparr>"
    by simp
  with calls show ?thesis by (simp add: prod_eq_iff)
qed

text \<open>
  Claim C2, as stated, fails for a prefix that starts with whitespace: with the prefix
  \<open>" [gotify] "\<close> the \<open>Title\<close> header is \<open>"[gotify] T"\<close>, which is not \<open>prefix + "T"\<close>.
\<close>

theorem title_prefix_counterexample:
  "gotify_message example_interp (example_config\<lparr>title_prefix := '' [gotify] ''\<rparr>) post_ok
     example_request =
     (Inr \<lparr>resp_id = 0, resp_appid = 0, resp_title = ''T'', resp_message = ''M'',
           resp_priority = 8\<rparr>,
      [\<lparr>url = ''https://ntfy.example.com/alerts'', data = ''M'',
        headers = [(''Priority'', ''5''), (''Tags'', ''gotify,adapter''),
                   (''Title'', ''[gotify] T'')],
        timeout = 10\<rparr>]) \<and>
   title_prefix (example_config\<lparr>title_prefix := '' [gotify] ''\<rparr>) @ ''T'' = '' [gotify] T'' \<and>
   ''[gotify] T'' \<noteq> title_prefix (example_config\<lparr>title_prefix := '' [gotify] ''\<rparr>) @ ''T''"
  by (simp add: gotify_message_accepted [OF read_example_request] eval_simps)

end
